theory Spec2Isabelle
  imports Complex_Main "HOL-Library.Sublist"
begin

section \<open>Python values, exceptions and results\<close>

text \<open>
  The channel lists of \<^verbatim>\<open>RealFlightGenericController\<close> mix Python ints and floats
  (\<^verbatim>\<open>1\<close> at index 7, \<^verbatim>\<open>0\<close> at index 2 of the vector set by
  \<^verbatim>\<open>reset_aircraft\<close>, floats elsewhere). The two print differently in an f-string and
  compare by value under \<^verbatim>\<open>==\<close>, so both are kept apart. Python floats are idealised
  as real numbers: rounding error, infinities and NaN are outside this model.
\<close>

datatype pynum = PyInt int | PyFloat real

fun num_val :: "pynum \<Rightarrow> real" where
  "num_val (PyInt i) = of_int i"
| "num_val (PyFloat x) = x"

text \<open>Python's \<^verbatim>\<open>==\<close> on two lists of numbers: same length, equal values elementwise.\<close>

definition py_list_eq :: "pynum list \<Rightarrow> pynum list \<Rightarrow> bool" where
  "py_list_eq xs ys = (map num_val xs = map num_val ys)"

text \<open>
  The exception classes that can occur: \<^verbatim>\<open>queue.Empty\<close> (the only class any handler
  of the module names), an exception of \<^verbatim>\<open>requests.post\<close>, and the built-in errors of
  attribute access on \<^verbatim>\<open>None\<close>, of a missing column, of \<^verbatim>\<open>round\<close> on a string
  and of a list index out of range.
\<close>

datatype exn = Empty | RequestException | AttributeError | KeyError | TypeError | IndexError

datatype 'a outcome = Returns 'a | Raises exn

text \<open>Python's \<^verbatim>\<open>round(x, d)\<close>: to \<open>d\<close> decimals, ties to the even neighbour.\<close>

definition py_round :: "real \<Rightarrow> nat \<Rightarrow> real" where
  "py_round x d =
     (let y = x * 10 ^ d; f = \<lfloor>y\<rfloor>; r = y - of_int f
      in of_int (if r < 1 / 2 then f else if 1 / 2 < r then f + 1
                 else if even f then f else f + 1) / 10 ^ d)"

section \<open>Responses, telemetry and the outside world\<close>

text \<open>
  A response body is modelled by what \<^verbatim>\<open>BeautifulSoup.find\<close> and
  \<^verbatim>\<open>pandas.read_xml\<close> make of it: \<open>None\<close> when there is no
  \<^verbatim>\<open>m-aircraftState\<close> element, otherwise the cells of row 0 by column name, a cell
  being a number or a text that did not parse as one.
\<close>

datatype cell = Number real | Text string

type_synonym aircraft_state = "(string \<times> cell) list"

type_synonym soap_response = "aircraft_state option"

record telemetry_row =
  col_T :: real
  col_Airspeed :: real
  col_Aircraft_X :: real
  col_Aircraft_Y :: real
  col_Altitude_above_Ground :: real
  col_Roll :: real
  col_Pitch :: real
  col_Yaw :: real
  col_Flying :: cell

text \<open>
  \<^verbatim>\<open>self.telemetry\<close> is a data frame: one row of missing values after
  \<^verbatim>\<open>__init__\<close> (\<^verbatim>\<open>index=[0]\<close>), no row after \<^verbatim>\<open>reset_aircraft\<close>, and the
  last decoded row after \<^verbatim>\<open>update_telemetry\<close>.
\<close>

datatype frame = Blank_Row | No_Rows | One_Row telemetry_row

record request =
  req_url :: string
  req_header :: "(string \<times> string) list"
  req_body :: string

text \<open>
  The environment answers the \<open>n\<close>-th call of \<^verbatim>\<open>requests.post\<close> with a response or
  with an exception, gives the \<open>n\<close>-th reading of \<^verbatim>\<open>time.time()\<close>, and formats a
  number the way an f-string does.
\<close>

datatype reply = Content soap_response | Failure

record env =
  net :: "nat \<Rightarrow> reply"
  clock :: "nat \<Rightarrow> real"
  format_num :: "pynum \<Rightarrow> string"

text \<open>
  What the controller does to the world: the calls of \<^verbatim>\<open>requests.post\<close> so far, the
  rows appended to \<^verbatim>\<open>telemetry.log\<close>, and the number of clock readings. The messages
  given to \<^verbatim>\<open>logging\<close> are not modelled.
\<close>

record world =
  posts :: "request list"
  telemetry_log :: "telemetry_row list"
  clock_reads :: nat

record controller =
  realflight_url :: string
  channels :: nat
  channel_default :: "pynum list"
  channel_values :: "pynum list"
  max_velocity :: real
  telemetry :: frame
  start :: real

type_synonym 'a result = "'a outcome \<times> controller \<times> world"

section \<open>The controller\<close>

definition read_clock :: "env \<Rightarrow> world \<Rightarrow> real \<times> world" where
  "read_clock e w = (clock e (clock_reads w), w\<lparr>clock_reads := Suc (clock_reads w)\<rparr>)"

definition neutral_vector :: "pynum list" where
  "neutral_vector =
     [PyFloat (1 / 2), PyFloat (1 / 2), PyFloat (1 / 2), PyFloat (1 / 2),
      PyFloat 0, PyFloat 0, PyFloat 0, PyInt 1,
      PyFloat 0, PyFloat 0, PyFloat 0, PyFloat 0]"

definition startup_vector :: "pynum list" where
  "startup_vector =
     [PyFloat (1 / 2), PyFloat (1 / 2), PyInt 0, PyFloat (1 / 2),
      PyFloat 0, PyFloat 0, PyFloat 0, PyInt 1,
      PyFloat 0, PyFloat 0, PyFloat 0, PyFloat 0]"

text \<open>
  \<^verbatim>\<open>__init__\<close>. \<^verbatim>\<open>channel_values\<close> and \<^verbatim>\<open>channel_default\<close> name the same list
  object, which no method mutates in place (every later write rebinds
  \<^verbatim>\<open>channel_values\<close>), so two values model them.
\<close>

definition init :: "env \<Rightarrow> string \<Rightarrow> real \<Rightarrow> world \<Rightarrow> controller \<times> world" where
  "init e link_uri max_vel w =
     (let (now, w') = read_clock e w
      in (\<lparr>realflight_url = link_uri, channels = 12,
           channel_default = neutral_vector, channel_values = neutral_vector,
           max_velocity = max_vel, telemetry = Blank_Row, start = now\<rparr>, w'))"

definition post_soap_request ::
  "env \<Rightarrow> controller \<Rightarrow> (string \<times> string) list \<Rightarrow> string \<Rightarrow> world
     \<Rightarrow> soap_response outcome \<times> world" where
  "post_soap_request e c header body w =
     (let w' = w\<lparr>posts := posts w @
                 [\<lparr>req_url = realflight_url c, req_header = header, req_body = body\<rparr>]\<rparr>
      in case net e (length (posts w)) of
           Failure \<Rightarrow> (Raises RequestException, w')
         | Content r \<Rightarrow> (Returns r, w'))"

definition content_type :: string where
  "content_type = ''text/xml;charset='UTF-8'' @ [CHR 0x27]"

definition envelope_open :: string where
  "envelope_open = ''<soap:Envelope xmlns:soap='http://schemas.xmlsoap.org/soap/envelope/' xmlns:xsd='http://www.w3.org/2001/XMLSchema' xmlns:xsi='http://www.w3.org/2001/XMLSchema-instance'>''"

definition simple_body :: "string \<Rightarrow> string" where
  "simple_body call =
     ''<?xml version='1.0' encoding='UTF-8'?>'' @
     ''        '' @ envelope_open @
     ''        <soap:Body>'' @
     ''        <'' @ call @ ''><a>1</a><b>2</b></'' @ call @ ''>'' @
     ''        </soap:Body>'' @
     ''        </soap:Envelope>''"

definition disable :: "env \<Rightarrow> controller \<times> world \<Rightarrow> soap_response result" where
  "disable e s =
     (case s of (c, w) \<Rightarrow>
        let (r, w') = post_soap_request e c
                        [(''content-type'', content_type),
                         (''soapaction'', ''RestoreOriginalControllerDevice''),
                         (''Connection'', ''Keep-Alive'')]
                        (simple_body ''RestoreOriginalControllerDevice'') w
        in (r, c, w'))"

definition enable :: "env \<Rightarrow> controller \<times> world \<Rightarrow> soap_response result" where
  "enable e s =
     (case s of (c, w) \<Rightarrow>
        let (r, w') = post_soap_request e c
                        [(''content-type'', content_type),
                         (''soapaction'', ''InjectUAVControllerInterface'')]
                        (simple_body ''InjectUAVControllerInterface'') w
        in (r, c, w'))"

subsection \<open>Decoding a response\<close>

definition read_at :: "aircraft_state \<Rightarrow> string \<Rightarrow> exn + cell" where
  "read_at st k = (case map_of st k of None \<Rightarrow> Inl KeyError | Some v \<Rightarrow> Inr v)"

definition read_rounded :: "aircraft_state \<Rightarrow> string \<Rightarrow> exn + real" where
  "read_rounded st k =
     (case read_at st k of
        Inl x \<Rightarrow> Inl x
      | Inr (Text t) \<Rightarrow> Inl TypeError
      | Inr (Number v) \<Rightarrow> Inr (py_round v 2))"

definition and_then :: "exn + 'a \<Rightarrow> ('a \<Rightarrow> exn + 'b) \<Rightarrow> exn + 'b" where
  "and_then r f = (case r of Inl x \<Rightarrow> Inl x | Inr v \<Rightarrow> f v)"

text \<open>The dictionary of \<^verbatim>\<open>update_telemetry\<close>, its entries evaluated in order.\<close>

definition make_row :: "real \<Rightarrow> aircraft_state \<Rightarrow> exn + telemetry_row" where
  "make_row t st =
     and_then (read_rounded st ''m-airspeed-MPS'') (\<lambda>airspeed.
     and_then (read_rounded st ''m-aircraftPositionX-MTR'') (\<lambda>x.
     and_then (read_rounded st ''m-aircraftPositionY-MTR'') (\<lambda>y.
     and_then (read_rounded st ''m-altitudeAGL-MTR'') (\<lambda>agl.
     and_then (read_rounded st ''m-roll-DEG'') (\<lambda>roll.
     and_then (read_rounded st ''m-inclination-DEG'') (\<lambda>pitch.
     and_then (read_rounded st ''m-azimuth-DEG'') (\<lambda>yaw.
     and_then (read_at st ''m-currentAircraftStatus'') (\<lambda>flying.
       Inr \<lparr>col_T = py_round t 3, col_Airspeed = airspeed, col_Aircraft_X = x,
            col_Aircraft_Y = y, col_Altitude_above_Ground = agl, col_Roll = roll,
            col_Pitch = pitch, col_Yaw = yaw, col_Flying = flying\<rparr>))))))))"

definition update_telemetry ::
  "env \<Rightarrow> soap_response \<Rightarrow> controller \<times> world \<Rightarrow> unit result" where
  "update_telemetry e soap_response s =
     (case s of (c, w) \<Rightarrow>
        (case soap_response of
           None \<Rightarrow> (Raises AttributeError, c, w)
         | Some st \<Rightarrow>
             let (now, w1) = read_clock e w
             in (case make_row (now - start c) st of
                   Inl x \<Rightarrow> (Raises x, c, w1)
                 | Inr row \<Rightarrow>
                     let c' = c\<lparr>telemetry := One_Row row\<rparr>
                     in (Returns (), c',
                         if \<not> py_list_eq (channel_values c') (channel_default c')
                         then w1\<lparr>telemetry_log := telemetry_log w1 @ [row]\<rparr>
                         else w1))))"




subsection \<open>The exchange\<close>

definition item :: "env \<Rightarrow> pynum \<Rightarrow> string" where
  "item e v = ''        <item>'' @ format_num e v @ ''</item>''"

definition exchange_body :: "env \<Rightarrow> pynum list \<Rightarrow> string" where
  "exchange_body e cv =
     ''<?xml version='1.0' encoding='UTF-8'?>'' @ envelope_open @
     ''        <soap:Body>'' @
     ''        <ExchangeData>'' @
     ''        <pControlInputs>'' @
     ''        <m-selectedChannels>4095</m-selectedChannels>'' @
     ''        <m-channelValues-0to1>'' @
     item e (cv ! 0) @ item e (cv ! 1) @ item e (cv ! 2) @ item e (cv ! 3) @
     item e (cv ! 4) @ item e (cv ! 5) @ item e (cv ! 6) @ item e (cv ! 7) @
     item e (cv ! 8) @ item e (cv ! 9) @ item e (cv ! 10) @ item e (cv ! 11) @
     ''        </m-channelValues-0to1>'' @
     ''        </pControlInputs>'' @
     ''        </ExchangeData>'' @
     ''        </soap:Body>'' @
     ''        </soap:Envelope>''"



definition exchange_header :: "(string \<times> string) list" where
  "exchange_header =
     [(''content-type'', content_type), (''soapaction'', ''ExchangeData'')]"

text \<open>The handler \<^verbatim>\<open>except Empty\<close>: it logs and goes on; anything else propagates.\<close>

definition except_Empty :: "'a \<Rightarrow> 'a result \<Rightarrow> 'a result" where
  "except_Empty dflt r =
     (case r of (Raises x, s) \<Rightarrow> if x = Empty then (Returns dflt, s) else (Raises x, s)
              | (Returns v, s) \<Rightarrow> (Returns v, s))"

text \<open>
  \<^verbatim>\<open>update_rc_value\<close>. Building the body reads indices 0 to 11, which raises
  \<^verbatim>\<open>IndexError\<close> on a shorter list, before the \<^verbatim>\<open>try\<close>.
\<close>

definition update_rc_value :: "env \<Rightarrow> controller \<times> world \<Rightarrow> unit result" where
  "update_rc_value e s =
     (case s of (c, w) \<Rightarrow>
        if length (channel_values c) < 12 then (Raises IndexError, c, w)
        else
          except_Empty ()
            (case post_soap_request e c exchange_header
                    (exchange_body e (channel_values c)) w of
               (Raises x, w1) \<Rightarrow> (Raises x, c, w1)
             | (Returns response, w1) \<Rightarrow> update_telemetry e response (c, w1)))"

text \<open>The world once the exchange request for the stored vector has been posted.\<close>

definition new_post :: "env \<Rightarrow> controller \<Rightarrow> world \<Rightarrow> world" where
  "new_post e c w = w\<lparr>posts := posts w @
     [\<lparr>req_url = realflight_url c, req_header = exchange_header,
       req_body = exchange_body e (channel_values c)\<rparr>]\<rparr>"

text \<open>
  The state in which \<^verbatim>\<open>reset_aircraft\<close> calls \<^verbatim>\<open>update_rc_value\<close>, once its own
  request has been answered.
\<close>

definition reset_header :: "(string \<times> string) list" where
  "reset_header = [(''content-type'', content_type), (''soapaction'', ''ResetAircraft'')]"

definition reset_posted :: "env \<Rightarrow> controller \<Rightarrow> world \<Rightarrow> controller \<times> world" where
  "reset_posted e c w =
     (let w1 = w\<lparr>posts := posts w @
                 [\<lparr>req_url = realflight_url c, req_header = reset_header,
                   req_body = simple_body ''ResetAircraft''\<rparr>]\<rparr>
      in (c\<lparr>telemetry := No_Rows, start := clock e (clock_reads w1),
            channel_values := startup_vector\<rparr>,
          w1\<lparr>clock_reads := Suc (clock_reads w1)\<rparr>))"

definition reset_aircraft :: "env \<Rightarrow> controller \<times> world \<Rightarrow> soap_response result" where
  "reset_aircraft e s =
     (case s of (c, w) \<Rightarrow>
        (case post_soap_request e c
                [(''content-type'', content_type),
                 (''soapaction'', ''ResetAircraft'')]
                (simple_body ''ResetAircraft'') w of
           (Raises x, w1) \<Rightarrow> (Raises x, c, w1)
         | (Returns message, w1) \<Rightarrow>
             let (now, w2) = read_clock e w1;
                 c' = c\<lparr>telemetry := No_Rows, start := now, channel_values := startup_vector\<rparr>
             in (case update_rc_value e (c', w2) of
                   (Raises x, s') \<Rightarrow> (Raises x, s')
                 | (Returns u, s') \<Rightarrow> (Returns message, s'))))"

subsection \<open>Motion to channel values\<close>

text \<open>Lines 275 to 296: the list that \<^verbatim>\<open>convert_motion_in_channel_values\<close> stores.\<close>

definition motion_channels :: "real \<Rightarrow> real \<Rightarrow> real \<Rightarrow> real \<Rightarrow> pynum list" where
  "motion_channels velocity_x velocity_y velocity_z rate_yaw =
     (let roll = 0.5 - (velocity_y * 3.6 / 9.5) / 2;
          pitch = 0.5 + (velocity_x * 3.6 / 9.5) / 2;
          throttle = 0.5 + (velocity_z * 3.6 / 13.5) / 2;
          throttle = (if velocity_z < 0 then 0.5 + (velocity_z * 3.6 / 7) / 2 else throttle);
          yaw = 0.5 + rate_yaw / 2
      in [PyFloat roll, PyFloat pitch, PyFloat throttle, PyFloat yaw,
          PyFloat 0, PyFloat 0, PyFloat 0, PyInt 1,
          PyFloat 0, PyFloat 0, PyFloat 0, PyFloat 0])"

definition convert_motion_in_channel_values ::
  "env \<Rightarrow> real \<Rightarrow> real \<Rightarrow> real \<Rightarrow> real \<Rightarrow> controller \<times> world \<Rightarrow> unit result" where
  "convert_motion_in_channel_values e velocity_x velocity_y velocity_z rate_yaw s =
     (case s of (c, w) \<Rightarrow>
        update_rc_value e
          (c\<lparr>channel_values := motion_channels velocity_x velocity_y velocity_z rate_yaw\<rparr>, w))"

subsection \<open>The context manager\<close>

text \<open>
  \<^verbatim>\<open>__enter__\<close> returns \<^verbatim>\<open>self\<close> (\<open>True\<close> here), or \<^verbatim>\<open>None\<close> after its
  handler ran; \<^verbatim>\<open>__exit__\<close> returns \<^verbatim>\<open>None\<close>.
\<close>

definition ctx_enter :: "env \<Rightarrow> controller \<times> world \<Rightarrow> bool result" where
  "ctx_enter e s =
     except_Empty False
       (case enable e s of
          (Raises x, s1) \<Rightarrow> (Raises x, s1)
        | (Returns m1, s1) \<Rightarrow>
            (case reset_aircraft e s1 of
               (Raises x, s2) \<Rightarrow> (Raises x, s2)
             | (Returns m2, s2) \<Rightarrow>
                 (case update_rc_value e s2 of
                    (Raises x, s3) \<Rightarrow> (Raises x, s3)
                  | (Returns u, s3) \<Rightarrow> (Returns True, s3))))"

definition ctx_exit :: "env \<Rightarrow> controller \<times> world \<Rightarrow> unit result" where
  "ctx_exit e s =
     except_Empty ()
       (case reset_aircraft e s of
          (Raises x, s1) \<Rightarrow> (Raises x, s1)
        | (Returns m1, s1) \<Rightarrow>
            (case disable e s1 of
               (Raises x, s2) \<Rightarrow> (Raises x, s2)
             | (Returns m2, s2) \<Rightarrow> (Returns (), s2)))"

section \<open>Callers\<close>

text \<open>
  The calls that the scripts and the window of the repository make on a controller. The
  window also rebinds \<^verbatim>\<open>rc.start\<close> to a new clock reading. The controller outlives an
  exception, so the state after a call is a state whatever the call's outcome.
\<close>

datatype call =
    Call_enable | Call_disable | Call_reset_aircraft | Call_update_rc_value
  | Call_convert_motion real real real real
  | Call_enter | Call_exit | Set_start

fun exec :: "env \<Rightarrow> call \<Rightarrow> controller \<times> world \<Rightarrow> controller \<times> world" where
  "exec e Call_enable s = snd (enable e s)"
| "exec e Call_disable s = snd (disable e s)"
| "exec e Call_reset_aircraft s = snd (reset_aircraft e s)"
| "exec e Call_update_rc_value s = snd (update_rc_value e s)"
| "exec e (Call_convert_motion vx vy vz r) s = snd (convert_motion_in_channel_values e vx vy vz r s)"
| "exec e Call_enter s = snd (ctx_enter e s)"
| "exec e Call_exit s = snd (ctx_exit e s)"
| "exec e Set_start (c, w) = (let (now, w') = read_clock e w in (c\<lparr>start := now\<rparr>, w'))"

inductive reachable :: "env \<Rightarrow> controller \<times> world \<Rightarrow> bool" for e :: env where
  constructed: "reachable e (init e link_uri max_vel w)"
| called: "reachable e s \<Longrightarrow> reachable e (exec e k s)"

text \<open>
  An exchange cycle is a poll (\<^verbatim>\<open>update_rc_value\<close> with the stored vector) or a motion
  command. A script runs its cycles in order and ends at the first exception.
\<close>

datatype cycle = Poll | Set_motion real real real real

fun run_cycle :: "env \<Rightarrow> cycle \<Rightarrow> controller \<times> world \<Rightarrow> unit result" where
  "run_cycle e Poll s = update_rc_value e s"
| "run_cycle e (Set_motion vx vy vz r) s = convert_motion_in_channel_values e vx vy vz r s"

fun run_cycles :: "env \<Rightarrow> cycle list \<Rightarrow> controller \<times> world \<Rightarrow> unit result" where
  "run_cycles e [] s = (Returns (), s)"
| "run_cycles e (k # ks) s =
     (case run_cycle e k s of
        (Raises x, s') \<Rightarrow> (Raises x, s')
      | (Returns u, s') \<Rightarrow> run_cycles e ks s')"

text \<open>The vector a cycle runs with, given the stored one.\<close>

fun cycle_vector :: "pynum list \<Rightarrow> cycle \<Rightarrow> pynum list" where
  "cycle_vector cv Poll = cv"
| "cycle_vector cv (Set_motion vx vy vz r) = motion_channels vx vy vz r"

text \<open>
  The number of cycles of a script that run with a vector different from \<open>d\<close>, when
  the stored vector is \<open>cv\<close> at its start.
\<close>

fun active_cycles :: "pynum list \<Rightarrow> pynum list \<Rightarrow> cycle list \<Rightarrow> nat" where
  "active_cycles d cv [] = 0"
| "active_cycles d cv (k # ks) =
     (if py_list_eq (cycle_vector cv k) d then 0 else 1)
       + active_cycles d (cycle_vector cv k) ks"

text \<open>What every method keeps true of the two channel lists.\<close>

definition chan_ok :: "controller \<Rightarrow> bool" where
  "chan_ok c = (length (channel_values c) = 12 \<and> channel_values c ! 7 = PyInt 1
                \<and> channel_default c = neutral_vector)"

section \<open>Reading a request back\<close>




section \<open>Sample inputs\<close>

definition sample_cells :: aircraft_state where
  "sample_cells =
     [(''m-airspeed-MPS'', Number 0), (''m-aircraftPositionX-MTR'', Number 1),
      (''m-aircraftPositionY-MTR'', Number 2), (''m-altitudeAGL-MTR'', Number 3),
      (''m-roll-DEG'', Number 0), (''m-inclination-DEG'', Number 0),
      (''m-azimuth-DEG'', Number 90), (''m-currentAircraftStatus'', Text ''CAS-FLYING'')]"

definition sample_format :: "pynum \<Rightarrow> string" where
  "sample_format v =
     (case v of
        PyInt i \<Rightarrow> (if i = 0 then ''0'' else if i = 1 then ''1'' else ''?'')
      | PyFloat x \<Rightarrow> (if x = 0 then ''0.0'' else if x = 1 / 2 then ''0.5'' else ''?''))"


text \<open>A simulator that answers every request with a full aircraft state.\<close>

definition env_up :: env where
  "env_up = \<lparr>net = (\<lambda>n. Content (Some sample_cells)), clock = (\<lambda>n. 0),
             format_num = sample_format\<rparr>"

text \<open>No simulator: every request fails in the transport.\<close>

definition env_down :: env where
  "env_down = \<lparr>net = (\<lambda>n. Failure), clock = (\<lambda>n. 0), format_num = sample_format\<rparr>"

text \<open>A simulator whose responses have no aircraft-state element.\<close>

definition env_stateless :: env where
  "env_stateless = \<lparr>net = (\<lambda>n. Content None), clock = (\<lambda>n. 0),
                    format_num = sample_format\<rparr>"

definition sample_row :: telemetry_row where
  "sample_row =
     \<lparr>col_T = 0, col_Airspeed = 0, col_Aircraft_X = 1, col_Aircraft_Y = 2,
      col_Altitude_above_Ground = 3, col_Roll = 0, col_Pitch = 0, col_Yaw = 90,
      col_Flying = Text ''CAS-FLYING''\<rparr>"

definition world0 :: world where
  "world0 = \<lparr>posts = [], telemetry_log = [], clock_reads = 0\<rparr>"

text \<open>A controller just constructed: nothing enabled, nothing sent.\<close>

definition fresh :: "env \<Rightarrow> controller \<times> world" where
  "fresh e = init e ''http://127.0.0.1:18083'' 1 world0"

section \<open>What one exchange does\<close>

lemma read_at_error: "read_at st k = Inl x \<Longrightarrow> x = KeyError"
  by (simp add: read_at_def split: option.splits)

lemma read_rounded_error: "read_rounded st k = Inl x \<Longrightarrow> x = KeyError \<or> x = TypeError"
  by (auto simp: read_rounded_def split: sum.splits cell.splits dest: read_at_error)

lemma and_then_error:
  assumes "and_then r f = Inl x"
  shows "r = Inl x \<or> (\<exists>v. r = Inr v \<and> f v = Inl x)"
  using assms by (cases r) (simp_all add: and_then_def)

lemma make_row_error:
  assumes "make_row t st = Inl x"
  shows "x = KeyError \<or> x = TypeError"
  using assms unfolding make_row_def
  by (auto dest!: and_then_error dest: read_rounded_error read_at_error)

lemma update_telemetry_None:
  "update_telemetry e None (c, w) = (Raises AttributeError, c, w)"
  by (simp add: update_telemetry_def)

lemma update_telemetry_error:
  assumes "make_row (clock e (clock_reads w) - start c) st = Inl x"
  shows "update_telemetry e (Some st) (c, w) =
           (Raises x, c, w\<lparr>clock_reads := Suc (clock_reads w)\<rparr>)"
  using assms by (simp add: update_telemetry_def read_clock_def)

lemma update_telemetry_row:
  assumes "make_row (clock e (clock_reads w) - start c) st = Inr row"
  shows "update_telemetry e (Some st) (c, w) =
           (Returns (), c\<lparr>telemetry := One_Row row\<rparr>,
            w\<lparr>clock_reads := Suc (clock_reads w),
              telemetry_log := (if py_list_eq (channel_values c) (channel_default c)
                                then telemetry_log w else telemetry_log w @ [row])\<rparr>)"
  using assms by (simp add: update_telemetry_def read_clock_def)

lemma update_telemetry_not_Empty: "fst (update_telemetry e r s) \<noteq> Raises Empty"
proof (cases s)
  case (Pair c w)
  show ?thesis
  proof (cases r)
    case None
    with Pair show ?thesis by (simp add: update_telemetry_None)
  next
    case (Some st)
    show ?thesis
    proof (cases "make_row (clock e (clock_reads w) - start c) st")
      case (Inl x)
      with make_row_error [OF Inl] Pair Some show ?thesis
        by (auto simp: update_telemetry_error)
    next
      case (Inr row)
      with Pair Some show ?thesis by (simp add: update_telemetry_row)
    qed
  qed
qed

lemma except_Empty_id: "fst r \<noteq> Raises Empty \<Longrightarrow> except_Empty d r = r"
  by (cases r) (auto simp: except_Empty_def split: outcome.splits)

lemma update_rc_value_short:
  "length (channel_values c) < 12 \<Longrightarrow> update_rc_value e (c, w) = (Raises IndexError, c, w)"
  by (simp add: update_rc_value_def)

lemma update_rc_value_Failure:
  assumes "12 \<le> length (channel_values c)" and "net e (length (posts w)) = Failure"
  shows "update_rc_value e (c, w) = (Raises RequestException, c, new_post e c w)"
  using assms
  by (simp add: update_rc_value_def post_soap_request_def new_post_def except_Empty_def)

lemma update_rc_value_Content:
  assumes "12 \<le> length (channel_values c)" and "net e (length (posts w)) = Content r"
  shows "update_rc_value e (c, w) = update_telemetry e r (c, new_post e c w)"
  using assms update_telemetry_not_Empty [of e r "(c, new_post e c w)"]
  by (simp add: update_rc_value_def post_soap_request_def new_post_def except_Empty_id)


lemma update_rc_value_cases [case_names short down absent bad good]:
  obtains "length (channel_values c) < 12"
      and "update_rc_value e (c, w) = (Raises IndexError, c, w)"
  | "12 \<le> length (channel_values c)" and "net e (length (posts w)) = Failure"
      and "update_rc_value e (c, w) = (Raises RequestException, c, new_post e c w)"
  | "12 \<le> length (channel_values c)" and "net e (length (posts w)) = Content None"
      and "update_rc_value e (c, w) = (Raises AttributeError, c, new_post e c w)"
  | st x where "12 \<le> length (channel_values c)"
      and "net e (length (posts w)) = Content (Some st)"
      and "make_row (clock e (clock_reads w) - start c) st = Inl x"
      and "x = KeyError \<or> x = TypeError"
      and "update_rc_value e (c, w) =
             (Raises x, c, (new_post e c w)\<lparr>clock_reads := Suc (clock_reads w)\<rparr>)"
  | st row where "12 \<le> length (channel_values c)"
      and "net e (length (posts w)) = Content (Some st)"
      and "make_row (clock e (clock_reads w) - start c) st = Inr row"
      and "update_rc_value e (c, w) =
             (Returns (), c\<lparr>telemetry := One_Row row\<rparr>,
              (new_post e c w)\<lparr>clock_reads := Suc (clock_reads w),
                telemetry_log := (if py_list_eq (channel_values c) (channel_default c)
                                  then telemetry_log w else telemetry_log w @ [row])\<rparr>)"
proof (cases "length (channel_values c) < 12")
  case True
  with that(1) show ?thesis by (simp add: update_rc_value_short)
next
  case False
  then have len: "12 \<le> length (channel_values c)" by simp
  show ?thesis
  proof (cases "net e (length (posts w))")
    case Failure
    with len that(2) show ?thesis by (simp add: update_rc_value_Failure)
  next
    case (Content r)
    note upd = update_rc_value_Content [OF len Content]
    show ?thesis
    proof (cases r)
      case None
      with len Content upd that(3) show ?thesis by (simp add: update_telemetry_None)
    next
      case (Some st)
      have [simp]: "clock_reads (new_post e c w) = clock_reads w"
        "telemetry_log (new_post e c w) = telemetry_log w"
        by (simp_all add: new_post_def)
      show ?thesis
      proof (cases "make_row (clock e (clock_reads w) - start c) st")
        case (Inl x)
        with len Content Some upd make_row_error [OF Inl] that(4) [of st x] show ?thesis
          by (simp add: update_telemetry_error)
      next
        case (Inr row)
        with len Content Some upd that(5) [of st row] show ?thesis
          by (simp add: update_telemetry_row)
      qed
    qed
  qed
qed

lemma update_rc_value_controller:
  "fst (snd (update_rc_value e (c, w))) =
     c\<lparr>telemetry := telemetry (fst (snd (update_rc_value e (c, w))))\<rparr>"
  by (rule update_rc_value_cases [where c = c and e = e and w = w]) simp_all

lemma channel_values_update_rc_value:
  "channel_values (fst (snd (update_rc_value e (c, w)))) = channel_values c"
  by (subst update_rc_value_controller) simp

lemma length_motion_channels: "length (motion_channels vx vy vz r) = 12"
  by (simp add: motion_channels_def Let_def)

lemma convert_is_update:
  "convert_motion_in_channel_values e vx vy vz r (c, w) =
     update_rc_value e (c\<lparr>channel_values := motion_channels vx vy vz r\<rparr>, w)"
  by (simp add: convert_motion_in_channel_values_def)

lemma posts_new_post:
  "posts (new_post e c w) = posts w @
     [\<lparr>req_url = realflight_url c, req_header = exchange_header,
       req_body = exchange_body e (channel_values c)\<rparr>]"
  by (simp add: new_post_def)

lemma new_post_keeps:
  "telemetry_log (new_post e c w) = telemetry_log w"
  "clock_reads (new_post e c w) = clock_reads w"
  by (simp_all add: new_post_def)

section \<open>The sample simulator\<close>

lemma make_row_sample: "make_row 0 sample_cells = Inr sample_row"
  by (simp add: make_row_def and_then_def read_rounded_def read_at_def sample_cells_def
      sample_row_def py_round_def)

lemma fresh_eq:
  "fresh e = (\<lparr>realflight_url = ''http://127.0.0.1:18083'', channels = 12,
               channel_default = neutral_vector, channel_values = neutral_vector,
               max_velocity = 1, telemetry = Blank_Row, start = clock e 0\<rparr>,
              \<lparr>posts = [], telemetry_log = [], clock_reads = 1\<rparr>)"
  by (simp add: fresh_def init_def read_clock_def world0_def)

lemma forward_not_neutral: "\<not> py_list_eq (motion_channels 1 0 0 0) neutral_vector"
  by (simp add: py_list_eq_def motion_channels_def neutral_vector_def Let_def)

lemma convert_up_fresh:
  "convert_motion_in_channel_values env_up 1 0 0 0 (fresh env_up) =
     (Returns (),
      \<lparr>realflight_url = ''http://127.0.0.1:18083'', channels = 12,
        channel_default = neutral_vector, channel_values = motion_channels 1 0 0 0,
        max_velocity = 1, telemetry = One_Row sample_row, start = 0\<rparr>,
      \<lparr>posts = [\<lparr>req_url = ''http://127.0.0.1:18083'', req_header = exchange_header,
                  req_body = exchange_body env_up (motion_channels 1 0 0 0)\<rparr>],
        telemetry_log = [sample_row], clock_reads = 2\<rparr>)"
proof -
  have "update_rc_value env_up
          (fst (fresh env_up)\<lparr>channel_values := motion_channels 1 0 0 0\<rparr>, snd (fresh env_up))
        = update_telemetry env_up (Some sample_cells)
            (fst (fresh env_up)\<lparr>channel_values := motion_channels 1 0 0 0\<rparr>,
             new_post env_up (fst (fresh env_up)\<lparr>channel_values := motion_channels 1 0 0 0\<rparr>)
               (snd (fresh env_up)))"
    by (rule update_rc_value_Content) (simp_all add: length_motion_channels env_up_def)
  also have "\<dots> = (Returns (),
      \<lparr>realflight_url = ''http://127.0.0.1:18083'', channels = 12,
        channel_default = neutral_vector, channel_values = motion_channels 1 0 0 0,
        max_velocity = 1, telemetry = One_Row sample_row, start = 0\<rparr>,
      \<lparr>posts = [\<lparr>req_url = ''http://127.0.0.1:18083'', req_header = exchange_header,
                  req_body = exchange_body env_up (motion_channels 1 0 0 0)\<rparr>],
        telemetry_log = [sample_row], clock_reads = 2\<rparr>)"
    by (subst update_telemetry_row [where row = sample_row])
      (simp_all add: fresh_eq new_post_def forward_not_neutral make_row_sample env_up_def)
  finally show ?thesis
    by (simp add: convert_motion_in_channel_values_def split_beta)
qed

section \<open>Motion conversion\<close>

text \<open>
  C7. The zero intent gives exactly the neutral vector
  \<open>[0.5, 0.5, 0.5, 0.5, 0, 0, 0, 1, 0, 0, 0, 0]\<close>, which is the list that
  \<^verbatim>\<open>__init__\<close> binds to \<^verbatim>\<open>channel_default\<close>; the method stores it whatever the
  exchange then does.
\<close>

theorem convert_zero_is_neutral:
  "motion_channels 0 0 0 0 =
     [PyFloat 0.5, PyFloat 0.5, PyFloat 0.5, PyFloat 0.5,
      PyFloat 0, PyFloat 0, PyFloat 0, PyInt 1, PyFloat 0, PyFloat 0, PyFloat 0, PyFloat 0]
   \<and> motion_channels 0 0 0 0 = channel_default (fst (init e uri mv w0))
   \<and> channel_values (fst (snd (convert_motion_in_channel_values e 0 0 0 0 (c, w))))
       = channel_default (fst (init e uri mv w0))"
  by (simp add: convert_motion_in_channel_values_def channel_values_update_rc_value
      motion_channels_def init_def read_clock_def neutral_vector_def)


section \<open>Motion commands and the connection\<close>



text \<open>
  C5 as stated fails. The vector is stored before the exchange, so a motion command whose
  transport fails has already replaced the previous channel vector.
\<close>

theorem failed_set_motion_counterexample:
  "fst (convert_motion_in_channel_values env_down 1 0 0 0 (fresh env_down))
     = Raises RequestException
   \<and> channel_values (fst (snd (convert_motion_in_channel_values env_down 1 0 0 0 (fresh env_down))))
       \<noteq> channel_values (fst (fresh env_down))"
proof -
  have "convert_motion_in_channel_values env_down 1 0 0 0 (fresh env_down) =
          (Raises RequestException,
           fst (fresh env_down)\<lparr>channel_values := motion_channels 1 0 0 0\<rparr>,
           new_post env_down (fst (fresh env_down)\<lparr>channel_values := motion_channels 1 0 0 0\<rparr>)
             (snd (fresh env_down)))"
    unfolding convert_motion_in_channel_values_def split_beta
    by (rule update_rc_value_Failure) (simp_all add: length_motion_channels env_down_def)
  with forward_not_neutral show ?thesis
    by (auto simp: fresh_eq py_list_eq_def)
qed

text \<open>
  C5 amended. When the transport fails, the motion command raises the transport's
  exception; the telemetry field, the clock origin and the log are as before, the request
  is recorded as posted, and the channel vector is the converted one.
\<close>

theorem failed_set_motion_keeps_telemetry:
  assumes "net e (length (posts w)) = Failure"
  shows "convert_motion_in_channel_values e vx vy vz r (c, w) =
           (Raises RequestException,
            c\<lparr>channel_values := motion_channels vx vy vz r\<rparr>,
            w\<lparr>posts := posts w @
                 [\<lparr>req_url = realflight_url c, req_header = exchange_header,
                   req_body = exchange_body e (motion_channels vx vy vz r)\<rparr>]\<rparr>)"
  using assms
  by (simp add: convert_is_update update_rc_value_Failure length_motion_channels new_post_def)

theorem failed_set_motion_keeps_telemetry_witness:
  "net env_down (length (posts world0)) = Failure
   \<and> convert_motion_in_channel_values env_down 1 0 0 0 (fst (fresh env_down), world0) =
       (Raises RequestException,
        fst (fresh env_down)\<lparr>channel_values := motion_channels 1 0 0 0\<rparr>,
        world0\<lparr>posts := posts world0 @
             [\<lparr>req_url = realflight_url (fst (fresh env_down)), req_header = exchange_header,
               req_body = exchange_body env_down (motion_channels 1 0 0 0)\<rparr>]\<rparr>)"
proof -
  have down: "net env_down (length (posts world0)) = Failure"
    by (simp add: env_down_def)
  from down failed_set_motion_keeps_telemetry [OF down] show ?thesis by simp
qed

text \<open>
  C6 as stated fails. The method that converts also exchanges: it posts a request,
  replaces the telemetry field and appends to the log, and an exception of the exchange
  (here the missing aircraft-state element) leaves it.
\<close>

theorem convert_motion_effects_counterexample:
  "posts (snd (snd (convert_motion_in_channel_values env_up 1 0 0 0 (fresh env_up))))
     \<noteq> posts (snd (fresh env_up))
   \<and> telemetry (fst (snd (convert_motion_in_channel_values env_up 1 0 0 0 (fresh env_up))))
       \<noteq> telemetry (fst (fresh env_up))
   \<and> telemetry_log (snd (snd (convert_motion_in_channel_values env_up 1 0 0 0 (fresh env_up))))
       \<noteq> telemetry_log (snd (fresh env_up))
   \<and> fst (convert_motion_in_channel_values env_stateless 1 0 0 0 (fresh env_stateless))
       = Raises AttributeError"
proof -
  have "convert_motion_in_channel_values env_stateless 1 0 0 0 (fresh env_stateless) =
          update_telemetry env_stateless None
           (fst (fresh env_stateless)\<lparr>channel_values := motion_channels 1 0 0 0\<rparr>,
            new_post env_stateless
              (fst (fresh env_stateless)\<lparr>channel_values := motion_channels 1 0 0 0\<rparr>)
              (snd (fresh env_stateless)))"
    unfolding convert_motion_in_channel_values_def split_beta
    by (rule update_rc_value_Content) (simp_all add: length_motion_channels env_stateless_def)
  then show ?thesis
    unfolding convert_up_fresh by (simp add: fresh_eq update_telemetry_None)
qed

text \<open>
  C6 amended. The vector computed from an intent depends on the intent alone, always has
  12 elements, and building the request from it cannot raise \<^verbatim>\<open>IndexError\<close>. Of the
  controller's fields the method changes only \<^verbatim>\<open>channel_values\<close>, which becomes
  that vector, and \<^verbatim>\<open>telemetry\<close>; it posts exactly one request.
\<close>

theorem convert_motion_frame:
  "fst (snd (convert_motion_in_channel_values e vx vy vz r (c, w))) =
     c\<lparr>channel_values := motion_channels vx vy vz r,
       telemetry := telemetry (fst (snd (convert_motion_in_channel_values e vx vy vz r (c, w))))\<rparr>
   \<and> length (motion_channels vx vy vz r) = 12
   \<and> fst (convert_motion_in_channel_values e vx vy vz r (c, w)) \<noteq> Raises IndexError
   \<and> length (posts (snd (snd (convert_motion_in_channel_values e vx vy vz r (c, w)))))
       = Suc (length (posts w))"
  unfolding convert_is_update
  by (rule update_rc_value_cases
        [where c = "c\<lparr>channel_values := motion_channels vx vy vz r\<rparr>" and e = e and w = w])
     (auto simp: length_motion_channels posts_new_post)

section \<open>Responses that cannot be decoded\<close>







section \<open>Reset\<close>

lemma reset_aircraft_Failure:
  assumes "net e (length (posts w)) = Failure"
  shows "reset_aircraft e (c, w) =
           (Raises RequestException, c,
            w\<lparr>posts := posts w @
                 [\<lparr>req_url = realflight_url c, req_header = reset_header,
                   req_body = simple_body ''ResetAircraft''\<rparr>]\<rparr>)"
  using assms by (simp add: reset_aircraft_def post_soap_request_def reset_header_def)

lemma reset_aircraft_Content:
  assumes "net e (length (posts w)) = Content m"
  shows "reset_aircraft e (c, w) =
           (case update_rc_value e (reset_posted e c w) of
              (Raises x, s') \<Rightarrow> (Raises x, s')
            | (Returns u, s') \<Rightarrow> (Returns m, s'))"
  using assms
  by (simp add: reset_aircraft_def post_soap_request_def reset_header_def reset_posted_def
      read_clock_def Let_def)

lemma reset_posted_fields:
  "channel_values (fst (reset_posted e c w)) = startup_vector"
  "channel_default (fst (reset_posted e c w)) = channel_default c"
  "telemetry_log (snd (reset_posted e c w)) = telemetry_log w"
  by (simp_all add: reset_posted_def Let_def)

lemma snd_outcome_case:
  "snd (case r of (Raises x, s') \<Rightarrow> (Raises x, s') | (Returns u, s') \<Rightarrow> (Returns (f u), s')) = snd r"
  by (cases r) (simp split: outcome.splits)

lemma update_rc_value_keeps:
  "channel_values (fst (snd (update_rc_value e s))) = channel_values (fst s)"
  "channel_default (fst (snd (update_rc_value e s))) = channel_default (fst s)"
proof -
  obtain c w where s: "s = (c, w)" by (cases s)
  show "channel_values (fst (snd (update_rc_value e s))) = channel_values (fst s)"
    unfolding s by (subst update_rc_value_controller) simp
  show "channel_default (fst (snd (update_rc_value e s))) = channel_default (fst s)"
    unfolding s by (subst update_rc_value_controller) simp
qed

lemma except_Empty_state: "snd (except_Empty d r) = snd r"
  by (cases r) (simp add: except_Empty_def split: outcome.splits)

lemma chan_ok_update_rc_value: "chan_ok (fst s) \<Longrightarrow> chan_ok (fst (snd (update_rc_value e s)))"
  by (simp add: chan_ok_def update_rc_value_keeps)

lemma chan_ok_enable: "chan_ok (fst s) \<Longrightarrow> chan_ok (fst (snd (enable e s)))"
  by (cases s) (simp add: enable_def split_beta Let_def)

lemma chan_ok_disable: "chan_ok (fst s) \<Longrightarrow> chan_ok (fst (snd (disable e s)))"
  by (cases s) (simp add: disable_def split_beta Let_def)

lemma chan_ok_reset_aircraft:
  assumes "chan_ok (fst s)"
  shows "chan_ok (fst (snd (reset_aircraft e s)))"
proof (cases s)
  case (Pair c w)
  show ?thesis
  proof (cases "net e (length (posts w))")
    case Failure
    with assms Pair show ?thesis by (simp add: reset_aircraft_Failure)
  next
    case (Content m)
    have "chan_ok (fst (reset_posted e c w))"
      using assms Pair by (simp add: chan_ok_def reset_posted_fields startup_vector_def)
    then have "chan_ok (fst (snd (update_rc_value e (reset_posted e c w))))"
      by (rule chan_ok_update_rc_value)
    then show ?thesis
      unfolding Pair reset_aircraft_Content [OF Content]
      by (simp add: snd_outcome_case [where f = "\<lambda>u. m"])
  qed
qed

lemma chan_ok_convert_motion:
  "chan_ok (fst s) \<Longrightarrow> chan_ok (fst (snd (convert_motion_in_channel_values e vx vy vz r s)))"
  by (cases s)
    (simp add: convert_is_update chan_ok_def update_rc_value_keeps motion_channels_def Let_def)

lemma chan_ok_ctx_enter:
  assumes "chan_ok (fst s)"
  shows "chan_ok (fst (snd (ctx_enter e s)))"
proof -
  obtain o1 s1 where r1: "enable e s = (o1, s1)" by (cases "enable e s")
  obtain o2 s2 where r2: "reset_aircraft e s1 = (o2, s2)" by (cases "reset_aircraft e s1")
  obtain o3 s3 where r3: "update_rc_value e s2 = (o3, s3)" by (cases "update_rc_value e s2")
  from chan_ok_enable [OF assms, of e] r1 have ok1: "chan_ok (fst s1)" by simp
  from chan_ok_reset_aircraft [OF ok1, of e] r2 have ok2: "chan_ok (fst s2)" by simp
  from chan_ok_update_rc_value [OF ok2, of e] r3 have ok3: "chan_ok (fst s3)" by simp
  from ok1 ok2 ok3 show ?thesis
    by (simp add: ctx_enter_def except_Empty_state r1 r2 r3 split: outcome.splits)
qed

lemma chan_ok_ctx_exit:
  assumes "chan_ok (fst s)"
  shows "chan_ok (fst (snd (ctx_exit e s)))"
proof -
  obtain o1 s1 where r1: "reset_aircraft e s = (o1, s1)" by (cases "reset_aircraft e s")
  obtain o2 s2 where r2: "disable e s1 = (o2, s2)" by (cases "disable e s1")
  from chan_ok_reset_aircraft [OF assms, of e] r1 have ok1: "chan_ok (fst s1)" by simp
  from chan_ok_disable [OF ok1, of e] r2 have ok2: "chan_ok (fst s2)" by simp
  from ok1 ok2 show ?thesis
    by (simp add: ctx_exit_def except_Empty_state r1 r2 split: outcome.splits)
qed

lemma chan_ok_exec: "chan_ok (fst s) \<Longrightarrow> chan_ok (fst (exec e k s))"
proof (cases k)
  case Set_start
  assume "chan_ok (fst s)"
  with Set_start show ?thesis
    by (cases s) (simp add: chan_ok_def read_clock_def)
qed (simp_all add: chan_ok_enable chan_ok_disable chan_ok_reset_aircraft
      chan_ok_update_rc_value chan_ok_convert_motion chan_ok_ctx_enter chan_ok_ctx_exit)

lemma chan_ok_init: "chan_ok (fst (init e uri mv w))"
  by (simp add: init_def read_clock_def chan_ok_def neutral_vector_def)

lemma reachable_chan_ok: "reachable e s \<Longrightarrow> chan_ok (fst s)"
  by (induction rule: reachable.induct) (simp_all add: chan_ok_init chan_ok_exec)

text \<open>
  C9. In every state that the constructor and any sequence of calls can produce, whatever
  their outcomes, the channel vector has exactly 12 elements and its element at index 7
  is the integer 1.
\<close>

theorem channel_vector_invariant:
  assumes "reachable e s"
  shows "length (channel_values (fst s)) = 12 \<and> channel_values (fst s) ! 7 = PyInt 1"
  using reachable_chan_ok [OF assms] by (simp add: chan_ok_def)

theorem channel_vector_invariant_witness:
  "reachable env_up
     (exec env_up (Call_convert_motion 1 0 0 0)
        (exec env_up Call_reset_aircraft (init env_up ''http://127.0.0.1:18083'' 1 world0)))
   \<and> length (channel_values (fst
        (exec env_up (Call_convert_motion 1 0 0 0)
          (exec env_up Call_reset_aircraft (init env_up ''http://127.0.0.1:18083'' 1 world0))))) = 12
   \<and> channel_values (fst
        (exec env_up (Call_convert_motion 1 0 0 0)
          (exec env_up Call_reset_aircraft (init env_up ''http://127.0.0.1:18083'' 1 world0)))) ! 7
       = PyInt 1"
proof -
  have r: "reachable env_up
     (exec env_up (Call_convert_motion 1 0 0 0)
        (exec env_up Call_reset_aircraft (init env_up ''http://127.0.0.1:18083'' 1 world0)))"
    by (intro reachable.called reachable.constructed)
  from r channel_vector_invariant [OF r] show ?thesis by simp
qed

section \<open>The telemetry log\<close>

lemma update_rc_value_returns:
  assumes "fst (update_rc_value e (c, w)) = Returns ()"
  shows "\<exists>row. telemetry (fst (snd (update_rc_value e (c, w)))) = One_Row row
           \<and> telemetry_log (snd (snd (update_rc_value e (c, w)))) =
               telemetry_log w @
                 (if py_list_eq (channel_values c) (channel_default c) then [] else [row])"
  by (rule update_rc_value_cases [where c = c and e = e and w = w])
    (use assms in \<open>auto simp: new_post_keeps\<close>)

lemma run_cycle_keeps:
  "channel_values (fst (snd (run_cycle e k (c, w)))) = cycle_vector (channel_values c) k"
  "channel_default (fst (snd (run_cycle e k (c, w)))) = channel_default c"
  by (cases k; simp add: convert_is_update update_rc_value_keeps)+

lemma run_cycle_returns:
  assumes "fst (run_cycle e k (c, w)) = Returns ()"
  shows "\<exists>row. telemetry_log (snd (snd (run_cycle e k (c, w)))) =
               telemetry_log w @
                 (if py_list_eq (cycle_vector (channel_values c) k) (channel_default c)
                  then [] else [row])"
proof (cases k)
  case Poll
  with assms update_rc_value_returns [of e c w] show ?thesis by auto
next
  case (Set_motion vx vy vz r)
  with assms
    update_rc_value_returns [of e "c\<lparr>channel_values := motion_channels vx vy vz r\<rparr>" w]
  show ?thesis by (auto simp: convert_is_update)
qed

lemma run_cycles_log:
  assumes "fst (run_cycles e ks (c, w)) = Returns ()"
  shows "length (telemetry_log (snd (snd (run_cycles e ks (c, w))))) =
           length (telemetry_log w) + active_cycles (channel_default c) (channel_values c) ks
         \<and> take (length (telemetry_log w)) (telemetry_log (snd (snd (run_cycles e ks (c, w)))))
             = telemetry_log w
         \<and> channel_default (fst (snd (run_cycles e ks (c, w)))) = channel_default c
         \<and> channel_values (fst (snd (run_cycles e ks (c, w)))) =
             foldl cycle_vector (channel_values c) ks"
  using assms
proof (induction ks arbitrary: c w)
  case Nil
  then show ?case by simp
next
  case (Cons k ks)
  obtain o1 c1 w1 where step: "run_cycle e k (c, w) = (o1, c1, w1)"
    by (cases "run_cycle e k (c, w)") auto
  with Cons.prems have o1: "o1 = Returns ()"
    by (cases o1) simp_all
  with step Cons.prems have rest: "fst (run_cycles e ks (c1, w1)) = Returns ()"
    and same: "run_cycles e (k # ks) (c, w) = run_cycles e ks (c1, w1)"
    by simp_all
  from step run_cycle_keeps [of e k c w]
  have c1: "channel_values c1 = cycle_vector (channel_values c) k"
    "channel_default c1 = channel_default c"
    by simp_all
  from step o1 run_cycle_returns [of e k c w]
  obtain row where w1: "telemetry_log w1 = telemetry_log w @
      (if py_list_eq (cycle_vector (channel_values c) k) (channel_default c) then [] else [row])"
    by auto
  from Cons.IH [OF rest] c1 w1 show ?case
    unfolding same
    by (auto simp: take_Suc_conv_app_nth dest: arg_cong [where f = "take (length (telemetry_log w))"])
qed

lemma make_row_sample_any:
  "make_row t sample_cells = Inr (sample_row\<lparr>col_T := py_round t 3\<rparr>)"
  by (simp add: make_row_def and_then_def read_rounded_def read_at_def sample_cells_def
      sample_row_def py_round_def)

lemma update_rc_value_up:
  assumes "12 \<le> length (channel_values c)"
  shows "fst (update_rc_value env_up (c, w)) = Returns ()"
proof -
  have "update_rc_value env_up (c, w) =
          update_telemetry env_up (Some sample_cells) (c, new_post env_up c w)"
    using assms by (intro update_rc_value_Content) (simp_all add: env_up_def)
  then show ?thesis
    by (simp add: update_telemetry_row [OF make_row_sample_any])
qed

lemma run_cycles_up:
  assumes "length (channel_values c) = 12"
  shows "fst (run_cycles env_up ks (c, w)) = Returns ()"
  using assms
proof (induction ks arbitrary: c w)
  case Nil
  then show ?case by simp
next
  case (Cons k ks)
  obtain o1 c1 w1 where step: "run_cycle env_up k (c, w) = (o1, c1, w1)"
    by (cases "run_cycle env_up k (c, w)") auto
  have "fst (run_cycle env_up k (c, w)) = Returns ()"
    using Cons.prems
    by (cases k) (simp_all add: convert_is_update update_rc_value_up length_motion_channels)
  with step have o1: "o1 = Returns ()" by simp
  from step run_cycle_keeps(1) [of env_up k c w] Cons.prems
  have "length (channel_values c1) = 12"
    by (cases k) (simp_all add: length_motion_channels)
  from Cons.IH [OF this] step o1 show ?case by simp
qed



lemma active_polls:
  "\<not> py_list_eq cv d \<Longrightarrow> active_cycles d cv (replicate n Poll) = n"
  by (induction n) simp_all

lemma foldl_polls: "foldl cycle_vector cv (replicate n Poll) = cv"
  by (induction n) simp_all

lemma startup_not_neutral: "\<not> py_list_eq startup_vector neutral_vector"
  by (simp add: py_list_eq_def startup_vector_def neutral_vector_def)

lemma reset_aircraft_up:
  "fst (reset_aircraft env_up (c, w)) = Returns (Some sample_cells)"
proof -
  have answered: "net env_up (length (posts w)) = Content (Some sample_cells)"
    by (simp add: env_up_def)
  obtain c0 w0 where posted: "reset_posted env_up c w = (c0, w0)"
    by (cases "reset_posted env_up c w")
  with reset_posted_fields(1) [of env_up c w] have "12 \<le> length (channel_values c0)"
    by (simp add: startup_vector_def)
  from update_rc_value_up [OF this, of w0] show ?thesis
    unfolding reset_aircraft_Content [OF answered] posted
    by (cases "update_rc_value env_up (c0, w0)") (auto split: outcome.splits)
qed

text \<open>
  C10. A reset that completes leaves the startup vector
  \<open>[0.5, 0.5, 0, 0.5, 0, 0, 0, 1, 0, 0, 0, 0]\<close>, which is the neutral vector with
  its throttle element replaced and does not compare equal to it. So the exchange inside
  the reset appends one record, and each of any number of polls that follow appends one
  more while the vector stays the startup vector.
\<close>

theorem reset_then_idle_is_logged:
  assumes "channel_default c = neutral_vector"
    and "fst (reset_aircraft e (c, w)) = Returns m"
    and "fst (run_cycles e (replicate n Poll) (snd (reset_aircraft e (c, w)))) = Returns ()"
  shows "channel_values (fst (snd (reset_aircraft e (c, w)))) = startup_vector
       \<and> startup_vector = neutral_vector [2 := PyInt 0]
       \<and> \<not> py_list_eq startup_vector neutral_vector
       \<and> length (telemetry_log (snd (snd (reset_aircraft e (c, w)))))
           = Suc (length (telemetry_log w))
       \<and> channel_values
           (fst (snd (run_cycles e (replicate n Poll) (snd (reset_aircraft e (c, w))))))
           = startup_vector
       \<and> length (telemetry_log
           (snd (snd (run_cycles e (replicate n Poll) (snd (reset_aircraft e (c, w)))))))
           = Suc (length (telemetry_log w)) + n"
proof -
  obtain c0 w0 where posted: "reset_posted e c w = (c0, w0)"
    by (cases "reset_posted e c w")
  with reset_posted_fields [of e c w] assms(1)
  have c0: "channel_values c0 = startup_vector" "channel_default c0 = neutral_vector"
    and w0: "telemetry_log w0 = telemetry_log w"
    by simp_all
  obtain o1 c1 w1 where inner: "update_rc_value e (c0, w0) = (o1, c1, w1)"
    by (cases "update_rc_value e (c0, w0)") auto
  from assms(2) obtain m' where answered: "net e (length (posts w)) = Content m'"
    by (cases "net e (length (posts w))") (simp_all add: reset_aircraft_Failure)
  from assms(2) have o1: "o1 = Returns ()"
    unfolding reset_aircraft_Content [OF answered] posted inner by (cases o1) simp_all
  then have after: "snd (reset_aircraft e (c, w)) = (c1, w1)"
    unfolding reset_aircraft_Content [OF answered] posted inner by simp
  from inner update_rc_value_keeps [of e "(c0, w0)"] c0
  have c1: "channel_values c1 = startup_vector" "channel_default c1 = neutral_vector"
    by simp_all
  from inner o1 update_rc_value_returns [of e c0 w0] c0 w0 startup_not_neutral
  have w1: "length (telemetry_log w1) = Suc (length (telemetry_log w))"
    by auto
  from assms(3) have "fst (run_cycles e (replicate n Poll) (c1, w1)) = Returns ()"
    unfolding after .
  from run_cycles_log [OF this] c1 w1 startup_not_neutral
  have "length (telemetry_log (snd (snd (run_cycles e (replicate n Poll) (c1, w1)))))
          = Suc (length (telemetry_log w)) + n"
    and "channel_values (fst (snd (run_cycles e (replicate n Poll) (c1, w1)))) = startup_vector"
    by (simp_all add: active_polls foldl_polls)
  with c1 w1 startup_not_neutral show ?thesis
    unfolding after by (simp add: startup_vector_def neutral_vector_def)
qed

theorem reset_then_idle_is_logged_witness:
  "channel_default (fst (fresh env_up)) = neutral_vector
   \<and> fst (reset_aircraft env_up (fst (fresh env_up), snd (fresh env_up)))
       = Returns (Some sample_cells)
   \<and> fst (run_cycles env_up (replicate 3 Poll)
          (snd (reset_aircraft env_up (fst (fresh env_up), snd (fresh env_up))))) = Returns ()
   \<and> channel_values (fst (snd (reset_aircraft env_up (fst (fresh env_up), snd (fresh env_up)))))
       = startup_vector
   \<and> length (telemetry_log
        (snd (snd (reset_aircraft env_up (fst (fresh env_up), snd (fresh env_up)))))) = 1
   \<and> length (telemetry_log (snd (snd (run_cycles env_up (replicate 3 Poll)
        (snd (reset_aircraft env_up (fst (fresh env_up), snd (fresh env_up)))))))) = 4"
proof -
  have h1: "channel_default (fst (fresh env_up)) = neutral_vector"
    by (simp add: fresh_eq)
  have h2: "fst (reset_aircraft env_up (fst (fresh env_up), snd (fresh env_up)))
              = Returns (Some sample_cells)"
    by (rule reset_aircraft_up)
  have "chan_ok (fst (fresh env_up))"
    unfolding fresh_def by (rule chan_ok_init)
  then have "chan_ok (fst (snd (reset_aircraft env_up (fresh env_up))))"
    by (rule chan_ok_reset_aircraft)
  then have "length (channel_values
      (fst (snd (reset_aircraft env_up (fst (fresh env_up), snd (fresh env_up)))))) = 12"
    by (simp add: chan_ok_def)
  then have h3: "fst (run_cycles env_up (replicate 3 Poll)
          (snd (reset_aircraft env_up (fst (fresh env_up), snd (fresh env_up))))) = Returns ()"
    using run_cycles_up
      [of "fst (snd (reset_aircraft env_up (fst (fresh env_up), snd (fresh env_up))))"
          "replicate 3 Poll"
          "snd (snd (reset_aircraft env_up (fst (fresh env_up), snd (fresh env_up))))"]
    by simp
  have l: "telemetry_log (snd (fresh env_up)) = []"
    by (simp add: fresh_eq)
  from h1 h2 h3 reset_then_idle_is_logged [OF h1 h2 h3] show ?thesis
    unfolding l by simp
qed

section \<open>The request body\<close>













end
